theory Spec2Isabelle
  imports Complex_Main "HOL-Library.Sublist"
begin

section \<open>JavaScript values as the handlers see them\<close>

text \<open>
  Every payload in this repository is typed \<open>any\<close>: the result of \<open>res.json()\<close> or
  \<open>request.json()\<close>. A value is one of the JSON shapes, or \<open>undefined\<close> (what reading a
  missing property gives). A number is carried as the text \<open>String(n)\<close> renders for it, so
  that \<open>0\<close> and \<open>-0\<close> are \<open>''0''\<close> and \<open>NaN\<close> is \<open>''NaN''\<close>; no arithmetic is done on
  payload numbers by the code modelled here. An object is the list of its entries, read
  with \<open>map_of\<close>. Strings are HOL strings; a character stands for one UTF-16 code unit,
  so that \<open>length\<close> is the \<open>length\<close> of the code, and the model has the code units below
  256 only. The one function here that is not the platform's on every such string is
  \<open>toUpperCase\<close>, which is exact on ASCII text; what depends on it is stated for ASCII
  text.
\<close>

datatype json =
    JUndefined
  | JNull
  | JBool bool
  | JNum string
  | JStr string
  | JArr "json list"
  | JObj "(string \<times> json) list"

text \<open>ToBoolean: what \<open>!x\<close>, \<open>x || y\<close>, \<open>x && y\<close> and \<open>x ? y : z\<close> test.\<close>

fun truthy :: "json \<Rightarrow> bool" where
  "truthy JUndefined = False"
| "truthy JNull = False"
| "truthy (JBool b) = b"
| "truthy (JNum s) = (s \<noteq> ''0'' \<and> s \<noteq> ''NaN'')"
| "truthy (JStr s) = (s \<noteq> [])"
| "truthy (JArr xs) = True"
| "truthy (JObj kvs) = True"

text \<open>\<open>a || b\<close> and \<open>a ?? b\<close>.\<close>

definition js_or :: "json \<Rightarrow> json \<Rightarrow> json" where
  "js_or a b = (if truthy a then a else b)"

definition nullish :: "json \<Rightarrow> bool" where
  "nullish a = (a = JUndefined \<or> a = JNull)"

definition js_nullish_or :: "json \<Rightarrow> json \<Rightarrow> json" where
  "js_nullish_or a b = (if nullish a then b else a)"

text \<open>
  \<open>data?.k\<close>: the property \<open>k\<close> of an object, \<open>undefined\<close> when the key is missing, when
  \<open>data\<close> is \<open>null\<close> or \<open>undefined\<close>, or when \<open>data\<close> is a primitive or an array (the code
  never reads \<open>length\<close> or another built-in property this way).
\<close>

fun get :: "json \<Rightarrow> string \<Rightarrow> json" where
  "get (JObj kvs) k = (case map_of kvs k of None \<Rightarrow> JUndefined | Some v \<Rightarrow> v)"
| "get v k = JUndefined"

text \<open>
  What a handler can catch: an \<open>Error\<close> with its message, or any other thrown value.
\<close>

datatype exn = Error string | Thrown

text \<open>The decimal text of a natural number, as a template literal prints it.\<close>

function show_nat :: "nat \<Rightarrow> string" where
  "show_nat n =
     (if n < 10 then [''0123456789'' ! n]
      else show_nat (n div 10) @ [''0123456789'' ! (n mod 10)])"
  by pat_completeness auto
termination
  by (relation "measure (\<lambda>n. n)") auto

declare show_nat.simps [simp del]

text \<open>
  \<open>String(v)\<close>, and \<open>new Error(v)\<close>, convert \<open>v\<close> to text. The conversion of an object calls
  its \<open>toString\<close>; an object parsed from JSON that has a key \<open>toString\<close> of its own hides
  the inherited function behind a value that cannot be called, and the conversion throws
  a TypeError. An array converts its elements, except \<open>null\<close> and \<open>undefined\<close>, and throws
  when one of them does.
\<close>

fun String_throws :: "json \<Rightarrow> bool" where
  "String_throws (JObj kvs) = (map_of kvs ''toString'' \<noteq> None)"
| "String_throws (JArr xs) = list_ex (\<lambda>x. \<not> nullish x \<and> String_throws x) xs"
| "String_throws v = False"

text \<open>
  The message of that TypeError. The wording is the engine's (this is V8's); nothing
  proved below depends on it.
\<close>

definition type_error_text :: string where
  "type_error_text = ''Cannot convert object to primitive value''"

text \<open>
  \<open>String(v)\<close> where it does not throw. An array is joined with commas, \<open>null\<close> and
  \<open>undefined\<close> elements empty.
\<close>

fun join_comma :: "string list \<Rightarrow> string" where
  "join_comma [] = []"
| "join_comma [s] = s"
| "join_comma (s # t # ss) = s @ '','' @ join_comma (t # ss)"

fun js_String :: "json \<Rightarrow> string" where
  "js_String JUndefined = ''undefined''"
| "js_String JNull = ''null''"
| "js_String (JBool b) = (if b then ''true'' else ''false'')"
| "js_String (JNum s) = s"
| "js_String (JStr s) = s"
| "js_String (JArr xs) =
     join_comma (map (\<lambda>x. if nullish x then [] else js_String x) xs)"
| "js_String (JObj kvs) = ''[object Object]''"

text \<open>\<open>typeof v === "string"\<close> and \<open>typeof v === "boolean"\<close>.\<close>

fun is_string :: "json \<Rightarrow> bool" where
  "is_string (JStr s) = True"
| "is_string v = False"

fun is_boolean :: "json \<Rightarrow> bool" where
  "is_boolean (JBool b) = True"
| "is_boolean v = False"

text \<open>
  \<open>toUpperCase\<close> and \<open>toLowerCase\<close> on the ASCII letters; every other character is left
  as it is. On ASCII text this is \<open>String.prototype.toUpperCase\<close>; beyond it the platform
  has mappings this function does not have (U+0131, the dotless i, becomes \<open>I\<close>).
\<close>

definition ascii :: "string \<Rightarrow> bool" where
  "ascii s = list_all (\<lambda>c. (of_char c :: nat) < 128) s"

definition lower_letters :: string where
  "lower_letters = ''abcdefghijklmnopqrstuvwxyz''"

definition upper_letters :: string where
  "upper_letters = ''ABCDEFGHIJKLMNOPQRSTUVWXYZ''"

definition upper_char :: "char \<Rightarrow> char" where
  "upper_char c = (case map_of (zip lower_letters upper_letters) c of None \<Rightarrow> c | Some u \<Rightarrow> u)"

definition lower_char :: "char \<Rightarrow> char" where
  "lower_char c = (case map_of (zip upper_letters lower_letters) c of None \<Rightarrow> c | Some l \<Rightarrow> l)"

definition toUpperCase :: "string \<Rightarrow> string" where
  "toUpperCase s = map upper_char s"

definition toLowerCase :: "string \<Rightarrow> string" where
  "toLowerCase s = map lower_char s"

section \<open>The pre-enquiry proxy: \<open>src/app/api/bbps/pre-enquiry/route.ts\<close>\<close>

text \<open>
  A regular expression that is an alternation of literal words with the flag \<open>i\<close>:
  \<open>test\<close> tries every start position, and at each the alternatives from left to right;
  two characters match when their canonical (upper-case) forms are equal.
\<close>

fun lit_at :: "string \<Rightarrow> string \<Rightarrow> bool" where
  "lit_at [] s = True"
| "lit_at (p # ps) [] = False"
| "lit_at (p # ps) (c # cs) = (upper_char p = upper_char c \<and> lit_at ps cs)"

fun alt_test_i :: "string list \<Rightarrow> string \<Rightarrow> bool" where
  "alt_test_i alts [] = list_ex (\<lambda>p. lit_at p []) alts"
| "alt_test_i alts (c # cs) = (list_ex (\<lambda>p. lit_at p (c # cs)) alts \<or> alt_test_i alts cs)"

definition errorStatusCodes :: "string list" where
  "errorStatusCodes = [''ERR'', ''IAN'', ''INV'', ''NF'', ''NA'']"

definition errorStatusWords :: "string list" where
  "errorStatusWords = [''invalid'', ''error'', ''failed'', ''not found'', ''unavailable'']"

text \<open>The two fields \<open>isErrorResponse\<close> reads, each with its fallback under \<open>error\<close>.\<close>

definition statuscode_field :: "json \<Rightarrow> json" where
  "statuscode_field data = js_or (get data ''statuscode'') (get (get data ''error'') ''statuscode'')"

definition status_field :: "json \<Rightarrow> json" where
  "status_field data = js_or (get data ''status'') (get (get data ''error'') ''status'')"

text \<open>
  Lines 9 to 16 of \<open>isErrorResponse\<close>, which are lines 177 to 181 of \<open>preEnquiryApi\<close> in
  \<open>unnamed/part_000\<close> as well: the two fields, and the two tests on their text. The
  result is the truth value of \<open>hasErrorStatusCode || hasErrorStatus\<close>, which is only ever
  tested by \<open>if\<close>; it is an exception when \<open>String\<close> throws on a field. The regular
  expression is tested even when the code has matched.
\<close>

definition error_fields_match :: "json \<Rightarrow> exn + bool" where
  "error_fields_match data =
     (let statuscode = statuscode_field data;
          status = status_field data
      in if truthy statuscode \<and> String_throws statuscode then Inl (Error type_error_text)
         else if truthy status \<and> String_throws status then Inl (Error type_error_text)
         else
           let hasErrorStatusCode =
                 (truthy statuscode
                  \<and> toUpperCase (js_String statuscode) \<in> set errorStatusCodes);
               hasErrorStatus =
                 (truthy status \<and> alt_test_i errorStatusWords (js_String status))
           in Inr (hasErrorStatusCode \<or> hasErrorStatus))"

text \<open>\<open>isErrorResponse\<close>, lines 7 to 17.\<close>

definition isErrorResponse :: "json \<Rightarrow> exn + bool" where
  "isErrorResponse data = (if \<not> truthy data then Inr False else error_fields_match data)"

text \<open>
  \<open>extractErrorStatus\<close> of the route, lines 19 to 31. Optional chaining never throws, so
  the \<open>catch\<close> branch is not reached.
\<close>

definition extractErrorStatus_route :: "json \<Rightarrow> json" where
  "extractErrorStatus_route data =
     js_or (get data ''status'')
       (js_or (get (get data ''error'') ''status'')
          (js_or (if is_string (get data ''error'') then get data ''error'' else JStr [])
             (js_or (get data ''message'') (JStr ''An error occurred''))))"

text \<open>
  \<open>request.json()\<close>, \<open>fetch\<close> and \<open>res.json()\<close> either deliver or throw, so each is an
  input of type \<open>exn + _\<close>.
\<close>

record response =
  status :: nat
  body :: json

record upstream =
  up_status :: nat
  up_json :: "exn + json"

text \<open>\<open>res.ok\<close>.\<close>

definition ok :: "nat \<Rightarrow> bool" where
  "ok st = (200 \<le> st \<and> st \<le> 299)"

text \<open>The \<open>catch (e)\<close> block shared by the three routes.\<close>

definition catch_all :: "exn \<Rightarrow> response" where
  "catch_all e =
     \<lparr>status = 500,
      body = JObj [(''error'', JStr (case e of Error m \<Rightarrow> m | Thrown \<Rightarrow> ''Unknown error''))]\<rparr>"

text \<open>
  \<open>NextResponse.json(body, {status})\<close> builds a \<open>Response\<close>, whose constructor throws a
  RangeError for a status outside 200 to 599 and a TypeError for a status that allows no
  body (204, 205 and 304 in that range). The wording of the messages is the runtime's
  (undici's); nothing proved below depends on it.
\<close>

definition range_error_text :: string where
  "range_error_text =
     ''init['' @ [CHR 0x22] @ ''status'' @ [CHR 0x22]
     @ ''] must be in the range of 200 to 599, inclusive.''"

definition null_body_error_text :: "nat \<Rightarrow> string" where
  "null_body_error_text st = ''Response constructor: Invalid response status code '' @ show_nat st"

definition NextResponse_json :: "json \<Rightarrow> nat \<Rightarrow> exn + response" where
  "NextResponse_json b st =
     (if st < 200 \<or> 599 < st then Inl (Error range_error_text)
      else if st = 204 \<or> st = 205 \<or> st = 304 then Inl (Error (null_body_error_text st))
      else Inr \<lparr>status = st, body = b\<rparr>)"

text \<open>
  \<open>return NextResponse.json(body, {status})\<close> inside the \<open>try\<close> of a route: the response,
  or what the \<open>catch\<close> block answers when the constructor throws.
\<close>

definition respond :: "json \<Rightarrow> nat \<Rightarrow> response" where
  "respond b st = (case NextResponse_json b st of Inl e \<Rightarrow> catch_all e | Inr r \<Rightarrow> r)"

text \<open>The body sent upstream, lines 44 to 49.\<close>

definition pre_enquiry_request :: "json \<Rightarrow> json" where
  "pre_enquiry_request b =
     JObj [(''billerId'', get b ''billerId''),
           (''inputParameters'', get b ''inputParameters''),
           (''externalRef'', get b ''externalRef''),
           (''transactionAmount'', js_nullish_or (get b ''transactionAmount'') (JNum ''0''))]"

text \<open>Lines 53 to 62: what is answered once the upstream body \<open>data\<close> has been parsed.\<close>

definition pre_enquiry_respond :: "nat \<Rightarrow> json \<Rightarrow> response" where
  "pre_enquiry_respond st data =
     (if \<not> ok st then
        respond
          (JObj [(''error'', js_or (extractErrorStatus_route data) (JStr ''Request failed'')),
                 (''details'', data)])
          st
      else
        (case isErrorResponse data of
           Inl e \<Rightarrow> catch_all e
         | Inr is_error \<Rightarrow>
             if is_error then
               \<lparr>status = 400,
                body = JObj [(''error'',
                              js_or (extractErrorStatus_route data) (JStr ''Invalid request'')),
                             (''details'', data)]\<rparr>
             else \<lparr>status = 200, body = data\<rparr>))"

text \<open>\<open>POST\<close>, lines 33 to 67.\<close>

definition pre_enquiry_POST :: "exn + json \<Rightarrow> (json \<Rightarrow> exn + upstream) \<Rightarrow> response" where
  "pre_enquiry_POST req fetch =
     (case req of
        Inl e \<Rightarrow> catch_all e
      | Inr parsed \<Rightarrow>
          let b = js_or parsed (JObj []) in
          if \<not> truthy (get b ''billerId'') \<or> \<not> truthy (get b ''inputParameters'')
             \<or> \<not> truthy (get b ''externalRef'')
          then \<lparr>status = 400,
                body = JObj [(''error'',
                              JStr ''billerId, inputParameters, externalRef are required'')]\<rparr>
          else
            (case fetch (pre_enquiry_request b) of
               Inl e \<Rightarrow> catch_all e
             | Inr res \<Rightarrow>
                 (case up_json res of
                    Inl e \<Rightarrow> catch_all e
                  | Inr data \<Rightarrow> pre_enquiry_respond (up_status res) data)))"

section \<open>The billers proxy: \<open>src/app/api/bbps/billers/route.ts\<close>\<close>

text \<open>Lines 10 to 12 and 17 to 20: the request forwarded upstream, with its \<open>??\<close> defaults.\<close>

definition billers_request :: "json \<Rightarrow> json" where
  "billers_request b =
     JObj [(''pagination'',
            JObj [(''pageNumber'',
                   js_nullish_or (get (get b ''pagination'') ''pageNumber'') (JNum ''1'')),
                  (''recordsPerPage'',
                   js_nullish_or (get (get b ''pagination'') ''recordsPerPage'') (JNum ''50''))]),
           (''filters'',
            JObj [(''categoryKey'',
                   js_nullish_or (get (get b ''filters'') ''categoryKey'') (JStr ''C10''))])]"

text \<open>
  \<open>POST\<close>, lines 7 to 33. A request body that is absent or does not parse makes
  \<open>request.json()\<close> reject, and \<open>.catch(() => ({}))\<close> turns that into the empty object.
\<close>

definition body_or_empty :: "exn + json \<Rightarrow> json" where
  "body_or_empty req = (case req of Inl e \<Rightarrow> JObj [] | Inr parsed \<Rightarrow> parsed)"

definition billers_POST :: "exn + json \<Rightarrow> (json \<Rightarrow> exn + upstream) \<Rightarrow> response" where
  "billers_POST req fetch =
     (let b = body_or_empty req in
      case fetch (billers_request b) of
        Inl e \<Rightarrow> catch_all e
      | Inr res \<Rightarrow>
          (case up_json res of
             Inl e \<Rightarrow> catch_all e
           | Inr data \<Rightarrow>
               if \<not> ok (up_status res)
               then respond (JObj [(''error'', data)]) (up_status res)
               else \<lparr>status = 200, body = data\<rparr>))"

section \<open>The biller-details proxy: \<open>unnamed/part_001\<close>\<close>

definition biller_details_POST :: "exn + json \<Rightarrow> (json \<Rightarrow> exn + upstream) \<Rightarrow> response" where
  "biller_details_POST req fetch =
     (case req of
        Inl e \<Rightarrow> catch_all e
      | Inr parsed \<Rightarrow>
          let billerId = get parsed ''billerId'' in
          if \<not> truthy billerId
          then \<lparr>status = 400, body = JObj [(''error'', JStr ''billerId is required'')]\<rparr>
          else
            (case fetch (JObj [(''billerId'', billerId)]) of
               Inl e \<Rightarrow> catch_all e
             | Inr res \<Rightarrow>
                 (case up_json res of
                    Inl e \<Rightarrow> catch_all e
                  | Inr data \<Rightarrow>
                      if \<not> ok (up_status res)
                      then respond (JObj [(''error'', data)]) (up_status res)
                      else \<lparr>status = 200, body = data\<rparr>)))"

section \<open>The client pages: \<open>unnamed/part_000\<close>\<close>

subsection \<open>\<open>fetchBillers\<close>: normalising upstream biller records\<close>

text \<open>
  \<open>Biller\<close>. The record is built from an \<open>any\<close>-typed upstream record, so the fields the
  mapper copies are whatever JSON value upstream sent; only \<open>isAvailable\<close> is computed
  to a boolean.
\<close>

record biller =
  billerId :: json
  billerName :: json
  isAvailable :: bool
  coverage :: json
  iconUrl :: json

text \<open>
  The arrow function passed to \<open>map\<close>, lines 70 to 76 (and 643 to 649, the same text).
  Reading a property of \<open>null\<close> or \<open>undefined\<close> throws a TypeError.
\<close>

definition normalize_biller :: "json \<Rightarrow> exn + biller" where
  "normalize_biller b =
     (if nullish b then Inl (Error ''TypeError'')
      else Inr
        \<lparr>billerId = js_or (get b ''billerId'') (js_or (get b ''id'') (JStr [])),
         billerName = js_or (get b ''billerName'') (js_or (get b ''name'') (JStr [])),
         isAvailable =
           (if is_boolean (get b ''isAvailable'') then get b ''isAvailable'' = JBool True
            else get b ''billerStatus'' = JStr ''ACTIVE''),
         coverage =
           (if truthy (get b ''coverageCity'') \<and> get b ''coverageCity'' \<noteq> JStr ''-''
            then get b ''coverageCity''
            else if truthy (get b ''coverageState'') \<and> get b ''coverageState'' \<noteq> JStr ''-''
            then get b ''coverageState''
            else JStr ''PAN India''),
         iconUrl = get b ''iconUrl''\<rparr>)"

text \<open>\<open>list.map(...)\<close>: the first record that throws ends the whole call.\<close>

fun map_records :: "json list \<Rightarrow> exn + biller list" where
  "map_records [] = Inr []"
| "map_records (b # bs) =
     (case normalize_biller b of
        Inl e \<Rightarrow> Inl e
      | Inr r \<Rightarrow> (case map_records bs of Inl e \<Rightarrow> Inl e | Inr rs \<Rightarrow> Inr (r # rs)))"

text \<open>
  Lines 69 and 70: where the list is looked for in the parsed response, and the records
  made from it. A value that is not an array has no \<open>map\<close>.
\<close>

definition fetchBillers_records :: "json \<Rightarrow> exn + biller list" where
  "fetchBillers_records data =
     (case js_or (get (get data ''data'') ''records'')
             (js_or (get data ''records'') (js_or (get data ''data'') (JArr []))) of
        JArr bs \<Rightarrow> map_records bs
      | other \<Rightarrow> Inl (Error ''TypeError''))"

subsection \<open>\<open>extractErrorStatus\<close> and the failure \<open>preEnquiryApi\<close> throws\<close>

text \<open>Lines 146 to 159 (and 718 to 731, the same text).\<close>

definition extractErrorStatus :: "json \<Rightarrow> json" where
  "extractErrorStatus data =
     js_or (get data ''error'')
       (js_or (get data ''status'')
          (js_or (get (get data ''error'') ''status'')
             (js_or (if is_string (get data ''error'') then get data ''error'' else JStr [])
                (js_or (get data ''message'') (JStr ''An error occurred'')))))"

text \<open>
  \<open>new Error(msg)\<close>: the message is the text of \<open>msg\<close>; when the conversion throws, the
  TypeError is what leaves the function.
\<close>

definition new_Error :: "json \<Rightarrow> exn" where
  "new_Error msg = (if String_throws msg then Error type_error_text else Error (js_String msg))"

text \<open>
  Lines 171 to 186: \<open>preEnquiryApi\<close> throws \<open>new Error(msg)\<close> when the proxy answered with
  a status that is not 2xx, or when the body carries an error code or word. The result
  is what these lines throw, \<open>None\<close> when they throw nothing and the function goes on to
  build the enquiry response.
\<close>

definition preEnquiry_failure :: "nat \<Rightarrow> json \<Rightarrow> exn option" where
  "preEnquiry_failure st data =
     (if \<not> ok st then
        Some (new_Error (js_or (extractErrorStatus data)
                               (JStr ''Failed to fetch recharge details'')))
      else
        (case error_fields_match data of
           Inl e \<Rightarrow> Some e
         | Inr is_error \<Rightarrow>
             if is_error
             then Some (new_Error (js_or (extractErrorStatus data) (JStr ''Invalid request'')))
             else None))"

subsection \<open>The list of billers: accumulation and replacement\<close>

text \<open>
  \<open>seen.has(id)\<close>. A \<open>Set\<close> compares strings, numbers and the other primitive values by
  value, and objects and arrays by identity; an id that is an object or an array comes
  from the response just parsed and is identical to none of an earlier one.
\<close>

definition Set_has :: "json set \<Rightarrow> json \<Rightarrow> bool" where
  "Set_has seen v = (case v of JArr xs \<Rightarrow> False | JObj kvs \<Rightarrow> False | other \<Rightarrow> v \<in> seen)"

text \<open>
  \<open>Home\<close>, lines 796 to 801, the updater given to \<open>setBillers\<close>: \<open>seen\<close> is computed once
  from \<open>prev\<close>, and the loop pushes every record whose id is not in it.
\<close>

fun push_unseen :: "json set \<Rightarrow> biller list \<Rightarrow> biller list \<Rightarrow> biller list" where
  "push_unseen seen merged [] = merged"
| "push_unseen seen merged (r # rs) =
     push_unseen seen (if Set_has seen (billerId r) then merged else merged @ [r]) rs"

definition merge_billers :: "biller list \<Rightarrow> biller list \<Rightarrow> biller list" where
  "merge_billers prev records = push_unseen (set (map billerId prev)) prev records"

text \<open>\<open>FastagRechargePage\<close>, line 255: \<open>setBillers(records)\<close>.\<close>

definition replace_billers :: "biller list \<Rightarrow> biller list \<Rightarrow> biller list" where
  "replace_billers prev records = records"

subsection \<open>Submit-time validation\<close>

datatype dataType = NUMERIC | ALPHANUMERIC

text \<open>
  \<open>InputParameter\<close>. \<open>minLength\<close> is only ever compared with the length of a string and
  printed, and is a natural number here.
\<close>

record inputParameter =
  name :: string
  paramName :: string
  dataType :: dataType
  minLength :: nat
  maxLength :: nat
  regex :: string
  mandatory :: bool
  desc :: string

record billerDetails =
  inputParameters :: "inputParameter list"
  paymentModes :: "string list"
  fetchRequirement :: string
  supportValidation :: string
  paymentAmountExactness :: string








subsection \<open>The wizard \<open>FastagRechargePage\<close>\<close>

datatype alert_type = AlertInfo | AlertError | AlertSuccess

record alert =
  type :: alert_type
  message :: string

text \<open>
  The thirteen \<open>useState\<close> cells, lines 225 to 237. The enquiry response and the page
  descriptor are only stored and shown, so their types are left open.
\<close>

record ('e, 'm) wizard =
  currentStep :: nat
  billers :: "biller list"
  search :: string
  selectedBiller :: "biller option"
  billerDetails :: "billerDetails option"
  formData :: "string \<rightharpoonup> string"
  enquiryData :: "'e option"
  selectedPaymentMode :: "string option"
  loadingBillers :: bool
  pageNumber :: nat
  meta :: "'m option"
  loadingEnquiry :: bool
  alert :: "alert option"



text \<open>Lines 309 to 317: what happens when the call has settled.\<close>

definition onSubmit_settled :: "exn + 'e \<Rightarrow> ('e, 'm) wizard \<Rightarrow> ('e, 'm) wizard" where
  "onSubmit_settled r s =
     (case r of
        Inr resp \<Rightarrow> s\<lparr>enquiryData := Some resp, loadingEnquiry := False\<rparr>
      | Inl e \<Rightarrow>
          s\<lparr>alert := Some \<lparr>type = AlertError,
                             message = (case e of
                                          Error m \<Rightarrow> if m \<noteq> [] then m
                                                     else ''Failed to fetch recharge details''
                                        | Thrown \<Rightarrow> ''Failed to fetch recharge details'')\<rparr>,
            currentStep := 2, loadingEnquiry := False\<rparr>)"



text \<open>
  The four controls that go back, lines 436, 470, 481 and 575. Each is an \<open>onClick\<close> that
  calls \<open>setCurrentStep\<close> and nothing else; the result is \<open>None\<close> when the control is not
  rendered in the state.
\<close>

datatype back_control = BackArrow2 | BackButton2 | BackArrow3 | BackButton3

fun go_back :: "back_control \<Rightarrow> ('e, 'm) wizard \<Rightarrow> ('e, 'm) wizard option" where
  "go_back BackArrow2 s =
     (if currentStep s = 2 \<and> billerDetails s \<noteq> None \<and> selectedBiller s \<noteq> None
      then Some (s\<lparr>currentStep := 1\<rparr>) else None)"
| "go_back BackButton2 s =
     (if currentStep s = 2 \<and> billerDetails s \<noteq> None \<and> selectedBiller s \<noteq> None
      then Some (s\<lparr>currentStep := 1\<rparr>) else None)"
| "go_back BackArrow3 s =
     (if currentStep s = 3 then Some (s\<lparr>currentStep := 2\<rparr>) else None)"
| "go_back BackButton3 s =
     (if currentStep s = 3 \<and> \<not> loadingEnquiry s \<and> enquiryData s \<noteq> None
      then Some (s\<lparr>currentStep := 2\<rparr>) else None)"

subsection \<open>Amounts: \<open>formatINR\<close> and \<open>toNumber\<close>\<close>




















section \<open>Notions used to state the properties\<close>

text \<open>Equality and containment of strings without regard to the case of ASCII letters.\<close>

definition equals_ci :: "string \<Rightarrow> string \<Rightarrow> bool" where
  "equals_ci a b = (toLowerCase a = toLowerCase b)"

definition contains_ci :: "string \<Rightarrow> string \<Rightarrow> bool" where
  "contains_ci w s = sublist (toLowerCase w) (toLowerCase s)"

text \<open>A field that is a string, or absent, or another falsy value.\<close>

definition text_or_falsy :: "json \<Rightarrow> bool" where
  "text_or_falsy v = (is_string v \<or> \<not> truthy v)"

text \<open>
  The priority chain as the specification words it: the explicit error, when it is a
  string, then the status, then the nested \<open>error.status\<close>, then the message, then the
  fallback text.
\<close>

definition specified_chain :: "json \<Rightarrow> json" where
  "specified_chain data =
     (if is_string (get data ''error'') \<and> truthy (get data ''error'') then get data ''error''
      else if truthy (get data ''status'') then get data ''status''
      else if truthy (get (get data ''error'') ''status'') then get (get data ''error'') ''status''
      else if truthy (get data ''message'') then get data ''message''
      else JStr ''An error occurred'')"

text \<open>
  The coverage as the specification words it: the city unless it is \<open>undefined\<close> or
  \<open>"-"\<close>, else the state unless it is \<open>undefined\<close> or \<open>"-"\<close>, else \<open>"PAN India"\<close>.
\<close>

definition specified_coverage :: "json \<Rightarrow> json" where
  "specified_coverage b =
     (if get b ''coverageCity'' \<noteq> JUndefined \<and> get b ''coverageCity'' \<noteq> JStr ''-''
      then get b ''coverageCity''
      else if get b ''coverageState'' \<noteq> JUndefined \<and> get b ''coverageState'' \<noteq> JStr ''-''
      then get b ''coverageState''
      else JStr ''PAN India'')"


text \<open>
  The values the coverage expression passes over: the falsy values and the sentinel
  \<open>"-"\<close>. And the shapes the specification speaks of for a coverage field: absent, or a
  non-empty string.
\<close>

definition blank_or_dash :: "json \<Rightarrow> bool" where
  "blank_or_dash v =
     (v \<in> {JUndefined, JNull, JBool False, JNum ''0'', JNum ''NaN'', JStr [], JStr ''-''})"

definition absent_or_text :: "json \<Rightarrow> bool" where
  "absent_or_text v = (case v of JUndefined \<Rightarrow> True | JStr s \<Rightarrow> s \<noteq> [] | other \<Rightarrow> False)"

text \<open>A concrete wizard in the second step, for concrete runs.\<close>

definition sample_biller :: biller where
  "sample_biller =
     \<lparr>billerId = JStr ''B1'', billerName = JStr ''Acme'', isAvailable = True,
      coverage = JStr ''PAN India'', iconUrl = JUndefined\<rparr>"

definition vehicleNo :: inputParameter where
  "vehicleNo =
     \<lparr>name = ''Vehicle Number'', paramName = ''vehicleNo'', dataType = ALPHANUMERIC,
      minLength = 4, maxLength = 10, regex = [], mandatory = True, desc = []\<rparr>"

definition mobile :: inputParameter where
  "mobile =
     \<lparr>name = ''Mobile'', paramName = ''mobile'', dataType = NUMERIC,
      minLength = 10, maxLength = 10, regex = ''9'', mandatory = False, desc = []\<rparr>"

definition sample_details :: billerDetails where
  "sample_details =
     \<lparr>inputParameters = [vehicleNo, mobile], paymentModes = [''UPI''],
      fetchRequirement = ''SUPPORTED'', supportValidation = ''SUPPORTED'',
      paymentAmountExactness = ''EXACT''\<rparr>"

definition sample_wizard :: "(unit, unit) wizard" where
  "sample_wizard =
     \<lparr>currentStep = 2, billers = [sample_biller], search = [],
      selectedBiller = Some sample_biller, billerDetails = Some sample_details,
      formData = [''mobile'' \<mapsto> ''12345''], enquiryData = Some (),
      selectedPaymentMode = None, loadingBillers = False, pageNumber = 1, meta = None,
      loadingEnquiry = False, alert = None\<rparr>"

text \<open>An upstream that answers every request the same way.\<close>

definition always :: "nat \<Rightarrow> json \<Rightarrow> json \<Rightarrow> exn + upstream" where
  "always st data q = Inr \<lparr>up_status = st, up_json = Inr data\<rparr>"

text \<open>
  The statuses a route relays from upstream: not 2xx, and accepted by the \<open>Response\<close>
  constructor together with a body.
\<close>

definition relayed :: "nat \<Rightarrow> bool" where
  "relayed st = (300 \<le> st \<and> st \<le> 599 \<and> st \<noteq> 304)"




section \<open>Properties of the biller normalisation\<close>

text \<open>
  C5. For every upstream biller record that is an object (or any value other than
  \<open>null\<close> and \<open>undefined\<close>, on which the mapper throws), the normalised biller exists and
  its \<open>isAvailable\<close> is true exactly when the record carries the boolean
  \<open>isAvailable: true\<close>, or carries no boolean \<open>isAvailable\<close> and its \<open>billerStatus\<close> is the
  string \<open>"ACTIVE"\<close>.
\<close>

theorem isAvailable_iff:
  assumes "\<not> nullish b"
  shows "\<exists>r. normalize_biller b = Inr r \<and>
           (isAvailable r \<longleftrightarrow>
              get b ''isAvailable'' = JBool True
              \<or> (\<not> is_boolean (get b ''isAvailable'')
                  \<and> get b ''billerStatus'' = JStr ''ACTIVE''))"
  using assms by (cases "get b ''isAvailable''") (auto simp: normalize_biller_def)

theorem isAvailable_iff_witness:
  "\<not> nullish (JObj [(''billerId'', JStr ''B1''), (''billerName'', JStr ''Acme''),
                     (''billerStatus'', JStr ''ACTIVE'')])
   \<and> (\<exists>r. normalize_biller (JObj [(''billerId'', JStr ''B1''), (''billerName'', JStr ''Acme''),
                                    (''billerStatus'', JStr ''ACTIVE'')]) = Inr r
           \<and> isAvailable r)"
  using isAvailable_iff [of "JObj [(''billerId'', JStr ''B1''), (''billerName'', JStr ''Acme''),
                                   (''billerStatus'', JStr ''ACTIVE'')]"]
  by (simp add: nullish_def)

section \<open>Case folding and the matchers of the pre-enquiry proxy\<close>

lemma lower_upper_char: "lower_char (upper_char c) = lower_char c"
  by (cases "c \<in> set lower_letters"; cases "c \<in> set upper_letters")
     (auto simp: lower_char_def upper_char_def lower_letters_def upper_letters_def)

lemma upper_lower_char: "upper_char (lower_char c) = upper_char c"
  by (cases "c \<in> set lower_letters"; cases "c \<in> set upper_letters")
     (auto simp: lower_char_def upper_char_def lower_letters_def upper_letters_def)

lemma upper_eq_iff_lower_eq: "upper_char a = upper_char b \<longleftrightarrow> lower_char a = lower_char b"
  by (metis lower_upper_char upper_lower_char)

lemma toLower_toUpper: "toLowerCase (toUpperCase s) = toLowerCase s"
  by (simp add: toLowerCase_def toUpperCase_def lower_upper_char)

lemma toUpper_toLower: "toUpperCase (toLowerCase s) = toUpperCase s"
  by (simp add: toLowerCase_def toUpperCase_def upper_lower_char)

lemma toUpper_eq_iff: "toUpperCase a = toUpperCase b \<longleftrightarrow> toLowerCase a = toLowerCase b"
  by (metis toLower_toUpper toUpper_toLower)

text \<open>A literal matches at the head of the input when, case folded, it is a prefix.\<close>

lemma lit_at_prefix: "lit_at p s \<longleftrightarrow> prefix (toLowerCase p) (toLowerCase s)"
  by (induction p s rule: lit_at.induct)
     (simp_all add: toLowerCase_def upper_eq_iff_lower_eq)

text \<open>The alternation finds a match exactly when one of its words occurs in the input.\<close>

lemma alt_test_i_contains:
  "alt_test_i alts s \<longleftrightarrow> (\<exists>w\<in>set alts. contains_ci w s)"
proof (induction s)
  case Nil
  show ?case
    by (auto simp: list_ex_iff lit_at_prefix contains_ci_def toLowerCase_def)
next
  case (Cons c cs)
  have "contains_ci w (c # cs) \<longleftrightarrow> lit_at w (c # cs) \<or> contains_ci w cs" for w
    by (simp add: contains_ci_def lit_at_prefix sublist_Cons_right toLowerCase_def)
  with Cons show ?case
    by (auto simp: list_ex_iff)
qed

lemma falsy_cases:
  "\<not> truthy v \<Longrightarrow>
     v = JUndefined \<or> v = JNull \<or> v = JBool False \<or> v = JNum ''0'' \<or> v = JNum ''NaN''
     \<or> v = JStr []"
  by (cases v) auto

lemma falsy_get: "\<not> truthy v \<Longrightarrow> get v k = JUndefined"
  by (cases v) auto

lemma upper_code_iff:
  "toUpperCase s \<in> set errorStatusCodes \<longleftrightarrow> (\<exists>c\<in>set errorStatusCodes. equals_ci s c)"
proof -
  have "\<forall>c\<in>set errorStatusCodes. toUpperCase c = c"
    by (simp add: errorStatusCodes_def toUpperCase_def upper_char_def lower_letters_def
        upper_letters_def)
  then show ?thesis
    unfolding equals_ci_def by (metis toUpper_eq_iff)
qed

text \<open>
  The guards \<open>statuscode &&\<close> and \<open>status &&\<close> change nothing: the text of a falsy value
  is neither an error code nor contains an error word.
\<close>

lemma falsy_no_code:
  assumes "\<not> truthy v"
  shows "\<not> (\<exists>c\<in>set errorStatusCodes. equals_ci (js_String v) c)"
  using falsy_cases [OF assms]
  by (auto simp: errorStatusCodes_def equals_ci_def toLowerCase_def lower_char_def
      lower_letters_def upper_letters_def)

lemma falsy_no_word:
  assumes "\<not> truthy v"
  shows "\<not> (\<exists>w\<in>set errorStatusWords. contains_ci w (js_String v))"
  using falsy_cases [OF assms]
  by (auto simp: errorStatusWords_def contains_ci_def toLowerCase_def lower_char_def
      lower_letters_def upper_letters_def sublist_Cons_right)

lemma String_throws_truthy: "String_throws v \<Longrightarrow> truthy v"
  by (cases v) auto

lemma error_fields_match_throws:
  assumes "String_throws (statuscode_field data) \<or> String_throws (status_field data)"
  shows "error_fields_match data = Inl (Error type_error_text)"
  using assms by (auto simp: error_fields_match_def Let_def String_throws_truthy)

lemma error_fields_match_iff:
  assumes "\<not> String_throws (statuscode_field data)" and "\<not> String_throws (status_field data)"
  shows "error_fields_match data =
           Inr ((\<exists>c\<in>set errorStatusCodes. equals_ci (js_String (statuscode_field data)) c)
                \<or> (\<exists>w\<in>set errorStatusWords. contains_ci w (js_String (status_field data))))"
  using assms falsy_no_code [of "statuscode_field data"] falsy_no_word [of "status_field data"]
  by (auto simp: error_fields_match_def Let_def upper_code_iff alt_test_i_contains)

lemma isErrorResponse_throws:
  assumes "String_throws (statuscode_field data) \<or> String_throws (status_field data)"
  shows "isErrorResponse data = Inl (Error type_error_text)"
proof -
  have "truthy data"
  proof (rule ccontr)
    assume "\<not> truthy data"
    then have "statuscode_field data = JUndefined" "status_field data = JUndefined"
      by (simp_all add: statuscode_field_def status_field_def falsy_get js_or_def)
    with assms show False by simp
  qed
  then show ?thesis
    using error_fields_match_throws [OF assms] by (simp add: isErrorResponse_def)
qed

lemma isErrorResponse_iff:
  assumes "\<not> String_throws (statuscode_field data)" and "\<not> String_throws (status_field data)"
  shows "isErrorResponse data =
           Inr ((\<exists>c\<in>set errorStatusCodes. equals_ci (js_String (statuscode_field data)) c)
                \<or> (\<exists>w\<in>set errorStatusWords. contains_ci w (js_String (status_field data))))"
proof (cases "truthy data")
  case False
  then have "statuscode_field data = JUndefined" "status_field data = JUndefined"
    by (simp_all add: statuscode_field_def status_field_def falsy_get js_or_def)
  with False falsy_no_code [of JUndefined] falsy_no_word [of JUndefined] show ?thesis
    by (simp add: isErrorResponse_def)
next
  case True
  then show ?thesis
    using error_fields_match_iff [OF assms] by (simp add: isErrorResponse_def)
qed

lemma js_or_truthy: "truthy b \<Longrightarrow> truthy (js_or a b)"
  by (simp add: js_or_def)

lemma extract_route_truthy: "truthy (extractErrorStatus_route data)"
  by (simp add: extractErrorStatus_route_def js_or_truthy)

lemma extract_route_text:
  assumes "text_or_falsy (get data ''status'')"
    and "text_or_falsy (get (get data ''error'') ''status'')"
    and "text_or_falsy (get data ''message'')"
  shows "is_string (extractErrorStatus_route data)"
  using assms by (auto simp: extractErrorStatus_route_def js_or_def text_or_falsy_def)

text \<open>A request that passes the check of line 37 reaches the upstream call.\<close>

lemma pre_enquiry_POST_fetched:
  assumes "truthy (get parsed ''billerId'')" "truthy (get parsed ''inputParameters'')"
    and "truthy (get parsed ''externalRef'')"
    and "fetch (pre_enquiry_request parsed) = Inr \<lparr>up_status = st, up_json = Inr data\<rparr>"
  shows "pre_enquiry_POST (Inr parsed) fetch = pre_enquiry_respond st data"
proof -
  have "truthy parsed"
    using assms(1) falsy_get [of parsed "''billerId''"] by (cases "truthy parsed") auto
  then have "js_or parsed (JObj []) = parsed"
    by (simp add: js_or_def)
  with assms show ?thesis
    by (simp add: pre_enquiry_POST_def)
qed

section \<open>Classification of upstream bodies by the pre-enquiry proxy\<close>

text \<open>
  C1, as amended. Take a valid request whose upstream call answers HTTP 200 with the
  JSON body \<open>data\<close>. Write the status code field for \<open>data.statuscode\<close>, or
  \<open>data.error.statuscode\<close> when the former is missing or falsy, and the status field for
  \<open>data.status\<close>, or \<open>data.error.status\<close> likewise.
  \<^item> When the conversion of one of the two fields to text throws (the field is, or as an
    array holds, an object with a \<open>toString\<close> key of its own), the proxy answers with its
    \<open>catch\<close> block: HTTP 500.
  \<^item> When neither conversion throws and the text of the status code field is ASCII, the
    body is classified as a domain error exactly when that text equals one of ERR, IAN,
    INV, NF, NA without regard to case, or the text of the status field contains,
    without regard to case, one of the words invalid, error, failed, not found,
    unavailable. In that case the proxy answers HTTP 400, and with a non-empty error
    string when \<open>status\<close>, \<open>error.status\<close> and \<open>message\<close> of the body are each a string or
    falsy. Otherwise the proxy answers HTTP 200 with the body itself.
\<close>

theorem pre_enquiry_classification:
  assumes "truthy (get parsed ''billerId'')" "truthy (get parsed ''inputParameters'')"
    and "truthy (get parsed ''externalRef'')"
    and "fetch (pre_enquiry_request parsed) = Inr \<lparr>up_status = 200, up_json = Inr data\<rparr>"
  shows "(String_throws (statuscode_field data) \<or> String_throws (status_field data)
            \<longrightarrow> pre_enquiry_POST (Inr parsed) fetch = catch_all (Error type_error_text)
                \<and> status (pre_enquiry_POST (Inr parsed) fetch) = 500)
       \<and> (\<not> String_throws (statuscode_field data) \<and> \<not> String_throws (status_field data)
           \<and> ascii (js_String (statuscode_field data))
            \<longrightarrow> isErrorResponse data =
                  Inr ((\<exists>c\<in>set errorStatusCodes.
                          equals_ci (js_String (statuscode_field data)) c)
                       \<or> (\<exists>w\<in>set errorStatusWords.
                              contains_ci w (js_String (status_field data))))
                \<and> (isErrorResponse data = Inr True \<longrightarrow>
                      status (pre_enquiry_POST (Inr parsed) fetch) = 400
                      \<and> (text_or_falsy (get data ''status'')
                          \<and> text_or_falsy (get (get data ''error'') ''status'')
                          \<and> text_or_falsy (get data ''message'')
                          \<longrightarrow> is_string
                                 (get (body (pre_enquiry_POST (Inr parsed) fetch)) ''error'')
                              \<and> truthy
                                 (get (body (pre_enquiry_POST (Inr parsed) fetch)) ''error'')))
                \<and> (isErrorResponse data = Inr False \<longrightarrow>
                      pre_enquiry_POST (Inr parsed) fetch = \<lparr>status = 200, body = data\<rparr>))"
proof -
  have r: "pre_enquiry_POST (Inr parsed) fetch = pre_enquiry_respond 200 data"
    using assms by (rule pre_enquiry_POST_fetched)
  have t: "pre_enquiry_respond 200 data = catch_all (Error type_error_text)
           \<and> status (pre_enquiry_respond 200 data) = 500"
    if "String_throws (statuscode_field data) \<or> String_throws (status_field data)"
    using isErrorResponse_throws [OF that]
    by (simp add: pre_enquiry_respond_def ok_def catch_all_def)
  have e: "status (pre_enquiry_respond 200 data) = 400
           \<and> get (body (pre_enquiry_respond 200 data)) ''error'' = extractErrorStatus_route data"
    if "isErrorResponse data = Inr True"
    using that extract_route_truthy [of data]
    by (simp add: pre_enquiry_respond_def ok_def js_or_def)
  have p: "pre_enquiry_respond 200 data = \<lparr>status = 200, body = data\<rparr>"
    if "isErrorResponse data = Inr False"
    using that by (simp add: pre_enquiry_respond_def ok_def)
  show ?thesis
    unfolding r
    using t e p isErrorResponse_iff [of data] extract_route_truthy [of data]
      extract_route_text [of data]
    by auto
qed

text \<open>
  The scenario of the specification: the upstream body \<open>{statuscode: "NA"}\<close> with HTTP 200
  is answered with HTTP 400 and the error string \<open>"An error occurred"\<close>. A body with the
  code TXN and the status \<open>"Success"\<close> is passed through.
\<close>

theorem pre_enquiry_classification_witness:
  "truthy (get (JObj [(''billerId'', JStr ''B1''), (''inputParameters'', JObj []),
                      (''externalRef'', JStr ''SABPE_1'')]) ''billerId'')
   \<and> \<not> String_throws (statuscode_field (JObj [(''statuscode'', JStr ''NA'')]))
   \<and> ascii (js_String (statuscode_field (JObj [(''statuscode'', JStr ''NA'')])))
   \<and> isErrorResponse (JObj [(''statuscode'', JStr ''NA'')]) = Inr True
   \<and> pre_enquiry_POST
        (Inr (JObj [(''billerId'', JStr ''B1''), (''inputParameters'', JObj []),
                    (''externalRef'', JStr ''SABPE_1'')]))
        (always 200 (JObj [(''statuscode'', JStr ''NA'')]))
      = \<lparr>status = 400,
         body = JObj [(''error'', JStr ''An error occurred''),
                      (''details'', JObj [(''statuscode'', JStr ''NA'')])]\<rparr>
   \<and> isErrorResponse (JObj [(''statuscode'', JStr ''TXN''), (''status'', JStr ''Success'')])
       = Inr False
   \<and> pre_enquiry_POST
        (Inr (JObj [(''billerId'', JStr ''B1''), (''inputParameters'', JObj []),
                    (''externalRef'', JStr ''SABPE_1'')]))
        (always 200 (JObj [(''statuscode'', JStr ''TXN''), (''status'', JStr ''Success'')]))
      = \<lparr>status = 200,
         body = JObj [(''statuscode'', JStr ''TXN''), (''status'', JStr ''Success'')]\<rparr>"
proof -
  let ?req = "JObj [(''billerId'', JStr ''B1''), (''inputParameters'', JObj []),
                    (''externalRef'', JStr ''SABPE_1'')]"
  let ?na = "JObj [(''statuscode'', JStr ''NA'')]"
  let ?txn = "JObj [(''statuscode'', JStr ''TXN''), (''status'', JStr ''Success'')]"
  have v: "truthy (get ?req ''billerId'')" "truthy (get ?req ''inputParameters'')"
    "truthy (get ?req ''externalRef'')"
    by simp_all
  have h: "\<not> String_throws (statuscode_field ?na)" "ascii (js_String (statuscode_field ?na))"
    "\<not> String_throws (statuscode_field ?txn)" "\<not> String_throws (status_field ?txn)"
    "ascii (js_String (statuscode_field ?txn))"
    by code_simp+
  have e: "isErrorResponse ?na = Inr True" "isErrorResponse ?txn = Inr False"
    by code_simp+
  have "pre_enquiry_POST (Inr ?req) (always 200 ?txn) = \<lparr>status = 200, body = ?txn\<rparr>"
    using pre_enquiry_classification [of ?req "always 200 ?txn" ?txn] v h e(2)
    by (simp add: always_def)
  moreover have "pre_enquiry_POST (Inr ?req) (always 200 ?na)
      = \<lparr>status = 400,
         body = JObj [(''error'', JStr ''An error occurred''), (''details'', ?na)]\<rparr>"
    by code_simp
  ultimately show ?thesis
    using v h e by simp
qed

text \<open>
  The claim as first stated has every body either answered with 400 or passed through.
  The body \<open>{statuscode: {toString: 1}}\<close> is neither: converting its status code to text
  throws, and the proxy answers 500.
\<close>

theorem pre_enquiry_conversion_throws:
  "pre_enquiry_POST
     (Inr (JObj [(''billerId'', JStr ''B1''), (''inputParameters'', JObj []),
                 (''externalRef'', JStr ''SABPE_1'')]))
     (always 200 (JObj [(''statuscode'', JObj [(''toString'', JNum ''1'')])]))
     = \<lparr>status = 500, body = JObj [(''error'', JStr type_error_text)]\<rparr>
   \<and> pre_enquiry_POST
     (Inr (JObj [(''billerId'', JStr ''B1''), (''inputParameters'', JObj []),
                 (''externalRef'', JStr ''SABPE_1'')]))
     (always 200 (JObj [(''statuscode'', JObj [(''toString'', JNum ''1'')])]))
     \<noteq> \<lparr>status = 200, body = JObj [(''statuscode'', JObj [(''toString'', JNum ''1'')])]\<rparr>"
  by (simp add: pre_enquiry_POST_def pre_enquiry_respond_def always_def ok_def js_or_def
      isErrorResponse_def error_fields_match_def statuscode_field_def status_field_def
      catch_all_def)

text \<open>
  The extractor hands on whatever value the field holds: for the body
  \<open>{statuscode: "NA", status: 1}\<close> the \<open>error\<close> of the answer is the number 1.
\<close>

lemma pre_enquiry_error_not_text:
  "pre_enquiry_respond 200 (JObj [(''statuscode'', JStr ''NA''), (''status'', JNum ''1'')])
     = \<lparr>status = 400,
        body = JObj [(''error'', JNum ''1''),
                     (''details'', JObj [(''statuscode'', JStr ''NA''), (''status'', JNum ''1'')])]\<rparr>"
  by code_simp

section \<open>The message extracted from an error body\<close>

lemma get_of_text_or_falsy: "text_or_falsy v \<Longrightarrow> get v k = JUndefined"
  by (cases v) (auto simp: text_or_falsy_def)

text \<open>
  On the client the first operand is \<open>data?.error\<close> itself, so the operands
  \<open>data?.error?.status\<close> and the \<open>typeof\<close> test after it never decide the result.
\<close>

lemma extractErrorStatus_chain:
  "extractErrorStatus data =
     (if truthy (get data ''error'') then get data ''error''
      else if truthy (get data ''status'') then get data ''status''
      else if truthy (get data ''message'') then get data ''message''
      else JStr ''An error occurred'')"
proof (cases "truthy (get data ''error'')")
  case True
  then show ?thesis by (simp add: extractErrorStatus_def js_or_def)
next
  case False
  then have "get (get data ''error'') ''status'' = JUndefined"
    by (simp add: falsy_get)
  with False show ?thesis
    by (simp add: extractErrorStatus_def js_or_def)
qed

lemma extractErrorStatus_truthy: "truthy (extractErrorStatus data)"
  by (simp add: extractErrorStatus_chain)

lemma extractErrorStatus_specified:
  assumes "text_or_falsy (get data ''error'')"
  shows "extractErrorStatus data = specified_chain data"
  using assms get_of_text_or_falsy [OF assms, of "''status''"]
  by (auto simp: extractErrorStatus_chain specified_chain_def text_or_falsy_def)

lemma extract_route_specified:
  assumes "\<not> (is_string (get data ''error'') \<and> truthy (get data ''error'')
              \<and> truthy (get data ''status''))"
  shows "extractErrorStatus_route data = specified_chain data"
proof (cases "is_string (get data ''error'')")
  case True
  then have "get (get data ''error'') ''status'' = JUndefined"
    by (simp add: get_of_text_or_falsy text_or_falsy_def)
  with True assms show ?thesis
    by (auto simp: extractErrorStatus_route_def specified_chain_def js_or_def)
next
  case False
  then show ?thesis
    by (auto simp: extractErrorStatus_route_def specified_chain_def js_or_def)
qed

lemma new_Error_text: "is_string v \<Longrightarrow> new_Error v = Error (js_String v)"
  by (cases v) (auto simp: new_Error_def)

lemma extractErrorStatus_text:
  assumes "text_or_falsy (get data ''error'')" and "text_or_falsy (get data ''status'')"
    and "text_or_falsy (get data ''message'')"
  shows "is_string (extractErrorStatus data)"
  using assms by (auto simp: extractErrorStatus_chain text_or_falsy_def)

lemma text_not_throws: "text_or_falsy v \<Longrightarrow> \<not> String_throws v"
  by (cases v) (auto simp: text_or_falsy_def)

lemma status_field_text:
  assumes "text_or_falsy (get data ''error'')" and "text_or_falsy (get data ''status'')"
  shows "\<not> String_throws (status_field data)"
  using get_of_text_or_falsy [OF assms(1), of "''status''"] text_not_throws [OF assms(2)]
  by (auto simp: status_field_def js_or_def)

lemma preEnquiry_failure_http:
  assumes "text_or_falsy (get data ''error'')" and "text_or_falsy (get data ''status'')"
    and "text_or_falsy (get data ''message'')" and "\<not> ok st"
  shows "preEnquiry_failure st data = Some (Error (js_String (extractErrorStatus data)))"
  using assms(4) extractErrorStatus_truthy [of data]
    new_Error_text [OF extractErrorStatus_text [OF assms(1-3)]]
  by (simp add: preEnquiry_failure_def js_or_def)

lemma preEnquiry_failure_domain:
  assumes "text_or_falsy (get data ''error'')" and "text_or_falsy (get data ''status'')"
    and "text_or_falsy (get data ''message'')" and "ok st"
    and "\<not> String_throws (statuscode_field data)"
  shows "preEnquiry_failure st data =
           (if (\<exists>c\<in>set errorStatusCodes. equals_ci (js_String (statuscode_field data)) c)
               \<or> (\<exists>w\<in>set errorStatusWords. contains_ci w (js_String (status_field data)))
            then Some (Error (js_String (extractErrorStatus data))) else None)"
  using assms(4) extractErrorStatus_truthy [of data]
    new_Error_text [OF extractErrorStatus_text [OF assms(1-3)]]
    error_fields_match_iff [OF assms(5) status_field_text [OF assms(1,2)]]
  by (simp add: preEnquiry_failure_def js_or_def)

text \<open>
  C2, as amended. For every error response data:
  \<^item> on the client, when the \<open>error\<close> field is a string or falsy, the extracted value is
    the one the specified chain gives: the explicit error string, then the status, then
    the nested \<open>error.status\<close>, then the message, then the fallback text;
  \<^item> in the proxy route the extracted value is the one the specified chain gives unless
    the body has both a non-empty error string and a truthy status; a truthy status is
    always the value extracted there;
  \<^item> when the fields an extractor consults are each a string or falsy, the value it
    returns is a non-empty string;
  \<^item> when \<open>error\<close>, \<open>status\<close> and \<open>message\<close> are each a string or falsy, the failure thrown
    by \<open>preEnquiryApi\<close> for a response that is not ok carries the string extracted on the
    client; for a response that is ok, with a status code field whose conversion to text
    does not throw and gives ASCII text, the domain-level check of \<open>preEnquiryApi\<close> throws
    exactly when the body carries an error code or an error word, and the failure
    carries the same string.
\<close>

theorem extraction_chain:
  "(text_or_falsy (get data ''error'') \<longrightarrow> extractErrorStatus data = specified_chain data)
   \<and> (\<not> (is_string (get data ''error'') \<and> truthy (get data ''error'')
           \<and> truthy (get data ''status''))
        \<longrightarrow> extractErrorStatus_route data = specified_chain data)
   \<and> (truthy (get data ''status'') \<longrightarrow> extractErrorStatus_route data = get data ''status'')
   \<and> (text_or_falsy (get data ''error'') \<and> text_or_falsy (get data ''status'')
        \<and> text_or_falsy (get data ''message'')
        \<longrightarrow> is_string (extractErrorStatus data) \<and> truthy (extractErrorStatus data))
   \<and> (text_or_falsy (get data ''status'')
        \<and> text_or_falsy (get (get data ''error'') ''status'')
        \<and> text_or_falsy (get data ''message'')
        \<longrightarrow> is_string (extractErrorStatus_route data)
            \<and> truthy (extractErrorStatus_route data))
   \<and> (text_or_falsy (get data ''error'') \<and> text_or_falsy (get data ''status'')
        \<and> text_or_falsy (get data ''message'') \<and> \<not> ok st
        \<longrightarrow> preEnquiry_failure st data = Some (Error (js_String (extractErrorStatus data))))
   \<and> (text_or_falsy (get data ''error'') \<and> text_or_falsy (get data ''status'')
        \<and> text_or_falsy (get data ''message'') \<and> ok st
        \<and> \<not> String_throws (statuscode_field data)
        \<and> ascii (js_String (statuscode_field data))
        \<longrightarrow> preEnquiry_failure st data =
              (if (\<exists>c\<in>set errorStatusCodes.
                     equals_ci (js_String (statuscode_field data)) c)
                  \<or> (\<exists>w\<in>set errorStatusWords.
                         contains_ci w (js_String (status_field data)))
               then Some (Error (js_String (extractErrorStatus data))) else None))"
proof -
  have a: "truthy (get data ''status'') \<longrightarrow> extractErrorStatus_route data = get data ''status''"
    by (simp add: extractErrorStatus_route_def js_or_def)
  show ?thesis
    using extractErrorStatus_specified [of data] extract_route_specified [of data] a
      extractErrorStatus_text [of data]
      extractErrorStatus_truthy [of data] extract_route_truthy [of data]
      extract_route_text [of data] preEnquiry_failure_http [of data st]
      preEnquiry_failure_domain [of data st]
    by blast
qed

text \<open>
  The answer of the proxy to a rejected enquiry, as the client reads it, and an upstream
  error body, as the proxy and the client read it.
\<close>

theorem extraction_chain_witness:
  "text_or_falsy (get (JObj [(''error'', JStr ''Biller unavailable''), (''details'', JObj [])])
                     ''error'')
   \<and> text_or_falsy (get (JObj [(''error'', JStr ''Biller unavailable''), (''details'', JObj [])])
                     ''status'')
   \<and> text_or_falsy (get (JObj [(''error'', JStr ''Biller unavailable''), (''details'', JObj [])])
                     ''message'')
   \<and> extractErrorStatus (JObj [(''error'', JStr ''Biller unavailable''), (''details'', JObj [])])
       = JStr ''Biller unavailable''
   \<and> specified_chain (JObj [(''error'', JStr ''Biller unavailable''), (''details'', JObj [])])
       = JStr ''Biller unavailable''
   \<and> \<not> ok 400
   \<and> preEnquiry_failure 400
        (JObj [(''error'', JStr ''Biller unavailable''), (''details'', JObj [])])
       = Some (Error ''Biller unavailable'')
   \<and> text_or_falsy
        (get (JObj [(''statuscode'', JStr ''ERR''), (''status'', JStr ''Invalid Biller'')])
             ''status'')
   \<and> extractErrorStatus_route
        (JObj [(''statuscode'', JStr ''ERR''), (''status'', JStr ''Invalid Biller'')])
       = JStr ''Invalid Biller''
   \<and> specified_chain
        (JObj [(''statuscode'', JStr ''ERR''), (''status'', JStr ''Invalid Biller'')])
       = JStr ''Invalid Biller''
   \<and> ok 200
   \<and> \<not> String_throws
        (statuscode_field
           (JObj [(''statuscode'', JStr ''ERR''), (''status'', JStr ''Invalid Biller'')]))
   \<and> ascii (js_String
        (statuscode_field
           (JObj [(''statuscode'', JStr ''ERR''), (''status'', JStr ''Invalid Biller'')])))
   \<and> preEnquiry_failure 200
        (JObj [(''statuscode'', JStr ''ERR''), (''status'', JStr ''Invalid Biller'')])
       = Some (Error ''Invalid Biller'')"
proof -
  let ?a = "JObj [(''error'', JStr ''Biller unavailable''), (''details'', JObj [])]"
  let ?b = "JObj [(''statuscode'', JStr ''ERR''), (''status'', JStr ''Invalid Biller'')]"
  have h: "\<not> String_throws (statuscode_field ?b)" "ascii (js_String (statuscode_field ?b))"
    "\<exists>c\<in>set errorStatusCodes. equals_ci (js_String (statuscode_field ?b)) c"
    by code_simp+
  have t: "text_or_falsy (get ?a ''error'')" "text_or_falsy (get ?a ''status'')"
    "text_or_falsy (get ?a ''message'')" "text_or_falsy (get ?b ''error'')"
    "text_or_falsy (get ?b ''status'')" "text_or_falsy (get ?b ''message'')"
    by (simp_all add: text_or_falsy_def)
  have s: "specified_chain ?a = JStr ''Biller unavailable''"
    "specified_chain ?b = JStr ''Invalid Biller''"
    by (simp_all add: specified_chain_def)
  have o: "\<not> ok 400" "ok 200"
    by (simp_all add: ok_def)
  show ?thesis
    using extraction_chain [of ?a 400] extraction_chain [of ?b 200] h t s o
    by simp
qed

text \<open>
  The chain as first stated puts the explicit error string before the status. In the
  route a body with both an error string and a status yields the status.
\<close>

theorem extraction_chain_counterexample:
  "extractErrorStatus_route (JObj [(''error'', JStr ''E''), (''status'', JStr ''S'')]) = JStr ''S''
   \<and> specified_chain (JObj [(''error'', JStr ''E''), (''status'', JStr ''S'')]) = JStr ''E''"
  by (simp add: extractErrorStatus_route_def specified_chain_def js_or_def)

text \<open>
  On the client a body whose \<open>error\<close> is an object is outside the first part of the
  theorem: the value extracted is the object itself.
\<close>

lemma extractErrorStatus_object:
  "extractErrorStatus (JObj [(''error'', JObj [(''status'', JStr ''x'')])])
     = JObj [(''status'', JStr ''x'')]"
  by (simp add: extractErrorStatus_def js_or_def)

section \<open>The coverage of a normalised biller\<close>

lemma truthy_not_dash: "truthy v \<and> v \<noteq> JStr ''-'' \<longleftrightarrow> \<not> blank_or_dash v"
  using falsy_cases [of v] by (auto simp: blank_or_dash_def)

text \<open>
  C4, as amended. For every upstream biller record the mapper accepts, the normalised
  coverage is the record's city when the city is truthy (not \<open>undefined\<close>, \<open>null\<close>,
  \<open>false\<close>, \<open>0\<close>, \<open>NaN\<close> or the empty string) and not \<open>"-"\<close>, else the record's state under
  the same test, else the literal \<open>"PAN India"\<close>. When city and state are each absent or
  a non-empty string, this is the rule as first stated.
\<close>

theorem coverage_fallback:
  assumes "\<not> nullish b"
  shows "\<exists>r. normalize_biller b = Inr r
           \<and> coverage r =
               (if \<not> blank_or_dash (get b ''coverageCity'') then get b ''coverageCity''
                else if \<not> blank_or_dash (get b ''coverageState'') then get b ''coverageState''
                else JStr ''PAN India'')
           \<and> (absent_or_text (get b ''coverageCity'') \<and> absent_or_text (get b ''coverageState'')
                \<longrightarrow> coverage r = specified_coverage b)"
proof -
  have "absent_or_text v \<Longrightarrow> blank_or_dash v \<longleftrightarrow> v = JUndefined \<or> v = JStr ''-''" for v
    by (cases v) (auto simp: absent_or_text_def blank_or_dash_def)
  with assms show ?thesis
    by (auto simp: normalize_biller_def truthy_not_dash specified_coverage_def)
qed

theorem coverage_fallback_witness:
  "\<not> nullish (JObj [(''billerId'', JStr ''B1''), (''coverageCity'', JStr ''-''),
                     (''coverageState'', JStr ''Goa'')])
   \<and> (\<exists>r. normalize_biller (JObj [(''billerId'', JStr ''B1''), (''coverageCity'', JStr ''-''),
                                    (''coverageState'', JStr ''Goa'')]) = Inr r
        \<and> coverage r = JStr ''Goa'')
   \<and> absent_or_text (JStr ''Goa'')"
  using coverage_fallback [of "JObj [(''billerId'', JStr ''B1''), (''coverageCity'', JStr ''-''),
                                     (''coverageState'', JStr ''Goa'')]"]
  by (auto simp: nullish_def blank_or_dash_def absent_or_text_def)

text \<open>
  A city that is the empty string is neither \<open>undefined\<close> nor \<open>"-"\<close>, so the rule as first
  stated gives the empty string; the mapper gives the state.
\<close>

theorem coverage_empty_city:
  "normalize_biller (JObj [(''billerId'', JStr ''B1''), (''coverageCity'', JStr ''''),
                           (''coverageState'', JStr ''Delhi'')])
     = Inr \<lparr>billerId = JStr ''B1'', billerName = JStr '''', isAvailable = False,
            coverage = JStr ''Delhi'', iconUrl = JUndefined\<rparr>
   \<and> specified_coverage (JObj [(''billerId'', JStr ''B1''), (''coverageCity'', JStr ''''),
                               (''coverageState'', JStr ''Delhi'')])
     = JStr ''''"
  by (simp add: normalize_biller_def nullish_def js_or_def specified_coverage_def)

section \<open>Going back in the wizard\<close>

text \<open>
  C9, as amended. Every Back transition of the wizard changes the current step to the
  prior one and nothing else: the biller details, the enquiry response, the form data
  and the selected biller all remain as they were. No Back transition clears the
  selected biller, the one re-entering the first step included.
\<close>

theorem back_changes_only_step:
  assumes "go_back c s = Some s'"
  shows "s' = s\<lparr>currentStep := currentStep s - 1\<rparr>
         \<and> billerDetails s' = billerDetails s \<and> enquiryData s' = enquiryData s
         \<and> selectedBiller s' = selectedBiller s \<and> formData s' = formData s"
  using assms by (cases c) (auto split: if_splits)

theorem back_changes_only_step_witness:
  "go_back BackButton2 sample_wizard = Some (sample_wizard\<lparr>currentStep := 1\<rparr>)
   \<and> billerDetails (sample_wizard\<lparr>currentStep := 1\<rparr>) = Some sample_details
   \<and> enquiryData (sample_wizard\<lparr>currentStep := 1\<rparr>) = Some ()"
  using back_changes_only_step
    [of BackButton2 sample_wizard "sample_wizard\<lparr>currentStep := 1\<rparr>"]
  by (simp add: sample_wizard_def)

text \<open>
  Back from the second step re-enters the first step, and the selected biller is still
  the one chosen.
\<close>

theorem back_keeps_selected_biller:
  "go_back BackButton2 sample_wizard = Some (sample_wizard\<lparr>currentStep := 1\<rparr>)
   \<and> currentStep (sample_wizard\<lparr>currentStep := 1\<rparr>) = 1
   \<and> selectedBiller (sample_wizard\<lparr>currentStep := 1\<rparr>) = Some sample_biller
   \<and> selectedBiller (sample_wizard\<lparr>currentStep := 1\<rparr>) \<noteq> None"
  by (simp add: sample_wizard_def)

section \<open>The defaults of the billers proxy\<close>



section \<open>Error translation in the three proxies\<close>

text \<open>
  A status from 300 to 599 other than 304 is one that a response with a body can carry;
  any other status that is not 2xx makes the construction of the response throw, and
  the handler's \<open>catch\<close> block answers.
\<close>

lemma respond_relayed: "relayed st \<Longrightarrow> respond b st = \<lparr>status = st, body = b\<rparr>"
  by (auto simp: respond_def NextResponse_json_def relayed_def)

lemma respond_not_relayed:
  assumes "\<not> ok st" and "\<not> relayed st"
  shows "status (respond b st) = 500"
  using assms by (auto simp: respond_def NextResponse_json_def relayed_def ok_def catch_all_def)

lemma relayed_not_ok: "relayed st \<Longrightarrow> \<not> ok st"
  by (simp add: relayed_def ok_def)

text \<open>What each handler answers, in terms of what its upstream call delivered.\<close>

lemma billers_POST_upstream:
  assumes "fetch (billers_request (body_or_empty req)) = r"
  shows "billers_POST req fetch =
     (case r of
        Inl e \<Rightarrow> catch_all e
      | Inr res \<Rightarrow>
          (case up_json res of
             Inl e \<Rightarrow> catch_all e
           | Inr data \<Rightarrow>
               if \<not> ok (up_status res)
               then respond (JObj [(''error'', data)]) (up_status res)
               else \<lparr>status = 200, body = data\<rparr>))"
  using assms by (simp add: billers_POST_def)

lemma biller_details_POST_upstream:
  assumes "truthy (get parsed ''billerId'')"
    and "fetch (JObj [(''billerId'', get parsed ''billerId'')]) = r"
  shows "biller_details_POST (Inr parsed) fetch =
     (case r of
        Inl e \<Rightarrow> catch_all e
      | Inr res \<Rightarrow>
          (case up_json res of
             Inl e \<Rightarrow> catch_all e
           | Inr data \<Rightarrow>
               if \<not> ok (up_status res)
               then respond (JObj [(''error'', data)]) (up_status res)
               else \<lparr>status = 200, body = data\<rparr>))"
  using assms by (simp add: biller_details_POST_def)

lemma pre_enquiry_POST_upstream:
  assumes "truthy (get parsed ''billerId'')" "truthy (get parsed ''inputParameters'')"
    and "truthy (get parsed ''externalRef'')"
    and "fetch (pre_enquiry_request parsed) = r"
  shows "pre_enquiry_POST (Inr parsed) fetch =
     (case r of
        Inl e \<Rightarrow> catch_all e
      | Inr res \<Rightarrow>
          (case up_json res of
             Inl e \<Rightarrow> catch_all e
           | Inr data \<Rightarrow> pre_enquiry_respond (up_status res) data))"
proof -
  have "truthy parsed"
    using assms(1) falsy_get [of parsed "''billerId''"] by (cases "truthy parsed") auto
  then have "js_or parsed (JObj []) = parsed"
    by (simp add: js_or_def)
  with assms show ?thesis
    by (simp add: pre_enquiry_POST_def)
qed

lemma pre_enquiry_respond_not_ok:
  assumes "\<not> ok st"
  shows "pre_enquiry_respond st data =
           respond (JObj [(''error'', extractErrorStatus_route data), (''details'', data)]) st"
  using assms extract_route_truthy [of data] by (simp add: pre_enquiry_respond_def js_or_def)

lemma billers_POST_relayed:
  assumes "relayed st"
    and "fetch (billers_request (body_or_empty req)) = Inr \<lparr>up_status = st, up_json = Inr data\<rparr>"
  shows "billers_POST req fetch = \<lparr>status = st, body = JObj [(''error'', data)]\<rparr>"
  using billers_POST_upstream [of fetch req] assms(2) relayed_not_ok [OF assms(1)]
    respond_relayed [OF assms(1)]
  by simp

lemma biller_details_POST_relayed:
  assumes "relayed st" and "truthy (get pd ''billerId'')"
    and "fetch (JObj [(''billerId'', get pd ''billerId'')])
           = Inr \<lparr>up_status = st, up_json = Inr data\<rparr>"
  shows "biller_details_POST (Inr pd) fetch = \<lparr>status = st, body = JObj [(''error'', data)]\<rparr>"
  using biller_details_POST_upstream [of pd fetch] assms(2,3) relayed_not_ok [OF assms(1)]
    respond_relayed [OF assms(1)]
  by simp

lemma pre_enquiry_POST_relayed:
  assumes "relayed st" and "truthy (get pe ''billerId'')"
    and "truthy (get pe ''inputParameters'')" and "truthy (get pe ''externalRef'')"
    and "fetch (pre_enquiry_request pe) = Inr \<lparr>up_status = st, up_json = Inr data\<rparr>"
  shows "pre_enquiry_POST (Inr pe) fetch
           = \<lparr>status = st,
              body = JObj [(''error'', extractErrorStatus_route data), (''details'', data)]\<rparr>"
  using pre_enquiry_POST_upstream [of pe fetch] assms(2-5)
    pre_enquiry_respond_not_ok [OF relayed_not_ok [OF assms(1)]]
    respond_relayed [OF assms(1)]
  by simp

lemma billers_POST_not_relayed:
  assumes "\<not> ok st" and "\<not> relayed st"
    and "fetch (billers_request (body_or_empty req)) = Inr \<lparr>up_status = st, up_json = Inr data\<rparr>"
  shows "status (billers_POST req fetch) = 500"
  using billers_POST_upstream [of fetch req] assms(3) assms(1) respond_not_relayed [OF assms(1,2)]
  by simp

lemma biller_details_POST_not_relayed:
  assumes "\<not> ok st" and "\<not> relayed st" and "truthy (get pd ''billerId'')"
    and "fetch (JObj [(''billerId'', get pd ''billerId'')])
           = Inr \<lparr>up_status = st, up_json = Inr data\<rparr>"
  shows "status (biller_details_POST (Inr pd) fetch) = 500"
  using biller_details_POST_upstream [of pd fetch] assms(3,4) assms(1)
    respond_not_relayed [OF assms(1,2)]
  by simp

lemma pre_enquiry_POST_not_relayed:
  assumes "\<not> ok st" and "\<not> relayed st" and "truthy (get pe ''billerId'')"
    and "truthy (get pe ''inputParameters'')" and "truthy (get pe ''externalRef'')"
    and "fetch (pre_enquiry_request pe) = Inr \<lparr>up_status = st, up_json = Inr data\<rparr>"
  shows "status (pre_enquiry_POST (Inr pe) fetch) = 500"
  using pre_enquiry_POST_upstream [of pe fetch] assms(3-6) pre_enquiry_respond_not_ok [OF assms(1)]
    respond_not_relayed [OF assms(1,2)]
  by simp

lemma billers_POST_thrown:
  assumes "fetch (billers_request (body_or_empty req)) = Inl e
           \<or> fetch (billers_request (body_or_empty req))
               = Inr \<lparr>up_status = st, up_json = Inl e\<rparr>"
  shows "billers_POST req fetch = catch_all e"
  using assms by (auto simp: billers_POST_def)

lemma biller_details_POST_thrown:
  assumes "truthy (get pd ''billerId'')"
    and "fetch (JObj [(''billerId'', get pd ''billerId'')]) = Inl e
         \<or> fetch (JObj [(''billerId'', get pd ''billerId'')])
             = Inr \<lparr>up_status = st, up_json = Inl e\<rparr>"
  shows "biller_details_POST (Inr pd) fetch = catch_all e"
  using assms by (auto simp: biller_details_POST_def)

lemma pre_enquiry_POST_thrown:
  assumes "truthy (get pe ''billerId'')" and "truthy (get pe ''inputParameters'')"
    and "truthy (get pe ''externalRef'')"
    and "fetch (pre_enquiry_request pe) = Inl e
         \<or> fetch (pre_enquiry_request pe) = Inr \<lparr>up_status = st, up_json = Inl e\<rparr>"
  shows "pre_enquiry_POST (Inr pe) fetch = catch_all e"
  using assms(4) pre_enquiry_POST_upstream [of pe fetch] assms(1-3)
  by auto

text \<open>
  C6, as amended. Let an upstream response have a status \<open>st\<close> that is not 2xx and a body
  that parses as JSON to \<open>data\<close>.
  \<^item> When \<open>st\<close> is from 300 to 599 and is not 304, the billers proxy, for any request, and
    the biller-details proxy, for a request with a \<open>billerId\<close>, answer \<open>{error: data}\<close> with
    status \<open>st\<close>; the pre-enquiry proxy, for a request with its three required fields,
    answers \<open>{error: m, details: data}\<close> with status \<open>st\<close>, where \<open>m\<close> is the message its
    extractor takes from \<open>data\<close>.
  \<^item> For any other status that is not 2xx the three proxies answer with status 500.
  \<^item> In all three an exception \<open>e\<close> thrown by the upstream call or by parsing the
    upstream body, and in biller-details and pre-enquiry by parsing the request body, is
    answered by the common \<open>catch\<close> block: status 500 and \<open>{error: message}\<close>, the message
    being \<open>"Unknown error"\<close> when the thrown value is not an \<open>Error\<close>.
\<close>

theorem proxy_error_translation:
  "(relayed st \<and> fetch (billers_request (body_or_empty req))
                  = Inr \<lparr>up_status = st, up_json = Inr data\<rparr>
      \<longrightarrow> billers_POST req fetch = \<lparr>status = st, body = JObj [(''error'', data)]\<rparr>)
   \<and> (relayed st \<and> truthy (get pd ''billerId'')
       \<and> fetch (JObj [(''billerId'', get pd ''billerId'')])
           = Inr \<lparr>up_status = st, up_json = Inr data\<rparr>
      \<longrightarrow> biller_details_POST (Inr pd) fetch
           = \<lparr>status = st, body = JObj [(''error'', data)]\<rparr>)
   \<and> (relayed st \<and> truthy (get pe ''billerId'') \<and> truthy (get pe ''inputParameters'')
       \<and> truthy (get pe ''externalRef'')
       \<and> fetch (pre_enquiry_request pe) = Inr \<lparr>up_status = st, up_json = Inr data\<rparr>
      \<longrightarrow> pre_enquiry_POST (Inr pe) fetch
           = \<lparr>status = st,
              body = JObj [(''error'', extractErrorStatus_route data), (''details'', data)]\<rparr>)
   \<and> (\<not> ok st \<and> \<not> relayed st
       \<and> fetch (billers_request (body_or_empty req))
           = Inr \<lparr>up_status = st, up_json = Inr data\<rparr>
      \<longrightarrow> status (billers_POST req fetch) = 500)
   \<and> (\<not> ok st \<and> \<not> relayed st \<and> truthy (get pd ''billerId'')
       \<and> fetch (JObj [(''billerId'', get pd ''billerId'')])
           = Inr \<lparr>up_status = st, up_json = Inr data\<rparr>
      \<longrightarrow> status (biller_details_POST (Inr pd) fetch) = 500)
   \<and> (\<not> ok st \<and> \<not> relayed st \<and> truthy (get pe ''billerId'')
       \<and> truthy (get pe ''inputParameters'') \<and> truthy (get pe ''externalRef'')
       \<and> fetch (pre_enquiry_request pe) = Inr \<lparr>up_status = st, up_json = Inr data\<rparr>
      \<longrightarrow> status (pre_enquiry_POST (Inr pe) fetch) = 500)
   \<and> (fetch (billers_request (body_or_empty req)) = Inl e
       \<or> fetch (billers_request (body_or_empty req)) = Inr \<lparr>up_status = st, up_json = Inl e\<rparr>
      \<longrightarrow> billers_POST req fetch = catch_all e)
   \<and> (truthy (get pd ''billerId'')
       \<and> (fetch (JObj [(''billerId'', get pd ''billerId'')]) = Inl e
          \<or> fetch (JObj [(''billerId'', get pd ''billerId'')])
              = Inr \<lparr>up_status = st, up_json = Inl e\<rparr>)
      \<longrightarrow> biller_details_POST (Inr pd) fetch = catch_all e)
   \<and> (truthy (get pe ''billerId'') \<and> truthy (get pe ''inputParameters'')
       \<and> truthy (get pe ''externalRef'')
       \<and> (fetch (pre_enquiry_request pe) = Inl e
          \<or> fetch (pre_enquiry_request pe) = Inr \<lparr>up_status = st, up_json = Inl e\<rparr>)
      \<longrightarrow> pre_enquiry_POST (Inr pe) fetch = catch_all e)
   \<and> biller_details_POST (Inl e) fetch = catch_all e
   \<and> pre_enquiry_POST (Inl e) fetch = catch_all e
   \<and> status (catch_all e) = 500
   \<and> body (catch_all (Error m)) = JObj [(''error'', JStr m)]
   \<and> body (catch_all Thrown) = JObj [(''error'', JStr ''Unknown error'')]"
proof -
  have "biller_details_POST (Inl e) fetch = catch_all e"
    and "pre_enquiry_POST (Inl e) fetch = catch_all e"
    by (simp_all add: biller_details_POST_def pre_enquiry_POST_def)
  moreover have "status (catch_all e) = 500"
    and "body (catch_all (Error m)) = JObj [(''error'', JStr m)]"
    and "body (catch_all Thrown) = JObj [(''error'', JStr ''Unknown error'')]"
    by (simp_all add: catch_all_def)
  ultimately show ?thesis
    using billers_POST_relayed [of st fetch req data]
      biller_details_POST_relayed [of st pd fetch data]
      pre_enquiry_POST_relayed [of st pe fetch data]
      billers_POST_not_relayed [of st fetch req data]
      biller_details_POST_not_relayed [of st pd fetch data]
      pre_enquiry_POST_not_relayed [of st pe fetch data]
      billers_POST_thrown [of fetch req e st]
      biller_details_POST_thrown [of pd fetch e st]
      pre_enquiry_POST_thrown [of pe fetch e st]
    by blast
qed

text \<open>
  The three proxies on the same upstream answer: 503 with the body \<open>{message: "down"}\<close>.
  An upstream status of 304 with a body cannot be relayed and is answered with 500, and
  so is an upstream call that throws.
\<close>

theorem proxy_error_translation_witness:
  "relayed 503
   \<and> billers_POST (Inr (JObj [])) (always 503 (JObj [(''message'', JStr ''down'')]))
       = \<lparr>status = 503, body = JObj [(''error'', JObj [(''message'', JStr ''down'')])]\<rparr>
   \<and> biller_details_POST (Inr (JObj [(''billerId'', JStr ''B1'')]))
         (always 503 (JObj [(''message'', JStr ''down'')]))
       = \<lparr>status = 503, body = JObj [(''error'', JObj [(''message'', JStr ''down'')])]\<rparr>
   \<and> pre_enquiry_POST
         (Inr (JObj [(''billerId'', JStr ''B1''), (''inputParameters'', JObj []),
                     (''externalRef'', JStr ''SABPE_1'')]))
         (always 503 (JObj [(''message'', JStr ''down'')]))
       = \<lparr>status = 503,
          body = JObj [(''error'', JStr ''down''),
                       (''details'', JObj [(''message'', JStr ''down'')])]\<rparr>
   \<and> \<not> ok 304 \<and> \<not> relayed 304
   \<and> status (billers_POST (Inr (JObj [])) (always 304 (JObj []))) = 500
   \<and> status (biller_details_POST (Inr (JObj [(''billerId'', JStr ''B1'')]))
                (always 304 (JObj []))) = 500
   \<and> status (pre_enquiry_POST
                (Inr (JObj [(''billerId'', JStr ''B1''), (''inputParameters'', JObj []),
                            (''externalRef'', JStr ''SABPE_1'')]))
                (always 304 (JObj []))) = 500
   \<and> billers_POST (Inr (JObj [])) (\<lambda>q. Inl (Error ''fetch failed''))
       = \<lparr>status = 500, body = JObj [(''error'', JStr ''fetch failed'')]\<rparr>"
  using proxy_error_translation
    [of 503 "always 503 (JObj [(''message'', JStr ''down'')])" "Inr (JObj [])"
        "JObj [(''message'', JStr ''down'')]" "JObj [(''billerId'', JStr ''B1'')]"
        "JObj [(''billerId'', JStr ''B1''), (''inputParameters'', JObj []),
               (''externalRef'', JStr ''SABPE_1'')]"]
    proxy_error_translation
    [of 304 "always 304 (JObj [])" "Inr (JObj [])"
        "JObj []" "JObj [(''billerId'', JStr ''B1'')]"
        "JObj [(''billerId'', JStr ''B1''), (''inputParameters'', JObj []),
               (''externalRef'', JStr ''SABPE_1'')]"]
    proxy_error_translation
    [of 503 "\<lambda>q. Inl (Error ''fetch failed'')" "Inr (JObj [])" _ _ _ "Error ''fetch failed''"]
  by (simp add: ok_def relayed_def always_def extractErrorStatus_route_def js_or_def
      catch_all_def)

text \<open>
  The claim as first stated has the pre-enquiry proxy re-wrap the upstream body as
  \<open>{error: body}\<close>. On a 502 with the body \<open>{status: "Bad Gateway"}\<close> its answer carries the
  extracted message as \<open>error\<close> and the body under \<open>details\<close>.
\<close>

theorem pre_enquiry_not_rewrapped:
  "pre_enquiry_POST
     (Inr (JObj [(''billerId'', JStr ''B1''), (''inputParameters'', JObj []),
                 (''externalRef'', JStr ''SABPE_1'')]))
     (always 502 (JObj [(''status'', JStr ''Bad Gateway'')]))
     = \<lparr>status = 502,
        body = JObj [(''error'', JStr ''Bad Gateway''),
                     (''details'', JObj [(''status'', JStr ''Bad Gateway'')])]\<rparr>
   \<and> pre_enquiry_POST
     (Inr (JObj [(''billerId'', JStr ''B1''), (''inputParameters'', JObj []),
                 (''externalRef'', JStr ''SABPE_1'')]))
     (always 502 (JObj [(''status'', JStr ''Bad Gateway'')]))
     \<noteq> \<lparr>status = 502, body = JObj [(''error'', JObj [(''status'', JStr ''Bad Gateway'')])]\<rparr>"
  by (simp add: pre_enquiry_POST_def pre_enquiry_respond_def always_def ok_def js_or_def
      extractErrorStatus_route_def respond_def NextResponse_json_def)

section \<open>Submit-time validation is fail-fast\<close>














section \<open>Accumulating pages of billers\<close>

text \<open>The loop appends, in order, the records whose id is not in \<open>seen\<close>.\<close>

lemma push_unseen_filter:
  "push_unseen seen merged rs = merged @ filter (\<lambda>r. \<not> Set_has seen (billerId r)) rs"
  by (induction rs arbitrary: merged) simp_all

lemma merge_billers_filter:
  "merge_billers prev records
     = prev @ filter (\<lambda>r. \<not> Set_has (set (map billerId prev)) (billerId r)) records"
  by (simp add: merge_billers_def push_unseen_filter)

text \<open>
  What the updater does keep: the previous list is a prefix of the new one, and when
  neither the previous list nor the page repeats an id, and the ids of the page are
  strings, the new list repeats none.
\<close>

lemma merge_billers_prefix: "prefix prev (merge_billers prev records)"
  by (simp add: merge_billers_filter)

lemma Set_has_string: "is_string v \<Longrightarrow> Set_has seen v \<longleftrightarrow> v \<in> seen"
  by (cases v) (simp_all add: Set_has_def)

lemma merge_billers_distinct:
  assumes "distinct (map billerId prev)" and "distinct (map billerId records)"
    and "\<forall>r\<in>set records. is_string (billerId r)"
  shows "distinct (map billerId (merge_billers prev records))"
proof -
  let ?fresh = "filter (\<lambda>r. \<not> Set_has (set (map billerId prev)) (billerId r)) records"
  have "distinct (map billerId ?fresh)"
    using assms(2) by (rule distinct_map_filter)
  moreover have "set (map billerId prev) \<inter> set (map billerId ?fresh) = {}"
    using assms(3) by (auto simp: Set_has_string, metis imageI)
  ultimately show ?thesis
    using assms(1) by (simp add: merge_billers_filter)
qed

text \<open>
  C8. The claim: after every update of the infinite-scroll list no two entries have the
  same \<open>billerId\<close>. The updater compares each record of the page with the ids of the
  previous list only, so a page that carries an id twice puts both records into the
  list: here the first page, fetched into the empty list, has two records with the id
  B1.
\<close>

theorem merge_billers_repeated_id:
  "fetchBillers_records
     (JObj [(''data'',
             JObj [(''records'',
                    JArr [JObj [(''billerId'', JStr ''B1''), (''billerName'', JStr ''Acme'')],
                          JObj [(''billerId'', JStr ''B1''),
                                (''billerName'', JStr ''Acme Two'')]])])])
     = Inr [\<lparr>billerId = JStr ''B1'', billerName = JStr ''Acme'', isAvailable = False,
              coverage = JStr ''PAN India'', iconUrl = JUndefined\<rparr>,
            \<lparr>billerId = JStr ''B1'', billerName = JStr ''Acme Two'', isAvailable = False,
              coverage = JStr ''PAN India'', iconUrl = JUndefined\<rparr>]
   \<and> merge_billers []
         [\<lparr>billerId = JStr ''B1'', billerName = JStr ''Acme'', isAvailable = False,
            coverage = JStr ''PAN India'', iconUrl = JUndefined\<rparr>,
          \<lparr>billerId = JStr ''B1'', billerName = JStr ''Acme Two'', isAvailable = False,
            coverage = JStr ''PAN India'', iconUrl = JUndefined\<rparr>]
     = [\<lparr>billerId = JStr ''B1'', billerName = JStr ''Acme'', isAvailable = False,
          coverage = JStr ''PAN India'', iconUrl = JUndefined\<rparr>,
        \<lparr>billerId = JStr ''B1'', billerName = JStr ''Acme Two'', isAvailable = False,
          coverage = JStr ''PAN India'', iconUrl = JUndefined\<rparr>]
   \<and> \<not> distinct (map billerId (merge_billers []
         [\<lparr>billerId = JStr ''B1'', billerName = JStr ''Acme'', isAvailable = False,
            coverage = JStr ''PAN India'', iconUrl = JUndefined\<rparr>,
          \<lparr>billerId = JStr ''B1'', billerName = JStr ''Acme Two'', isAvailable = False,
            coverage = JStr ''PAN India'', iconUrl = JUndefined\<rparr>]))"
  by (simp add: fetchBillers_records_def normalize_biller_def nullish_def js_or_def
      merge_billers_def Set_has_def)

section \<open>Formatting an amount and reading it back\<close>




















end
